theory Spec2Isabelle
  imports Main
begin

section \<open>JavaScript values\<close>

text \<open>Decimal digits of a natural number, as JavaScript prints an array index or a count.\<close>

definition digit :: "nat \<Rightarrow> char" where
  "digit d = char_of (48 + d)"

fun decimal :: "nat \<Rightarrow> string" where
  "decimal n = (if n < 10 then [digit n] else decimal (n div 10) @ [digit (n mod 10)])"

declare decimal.simps [simp del]

text \<open>
  The values \<^verbatim>\<open>JSON.parse\<close> can return. A number is represented by the text that
  JavaScript prints for it: equal numbers have the same text, zero (of either sign) is
  \<^verbatim>\<open>0\<close>, and the program does nothing with a number but compare it with zero and print
  it. An object is its own properties, each key once; the order of keys is not that of
  JavaScript, and only lookups are made. A text that \<^verbatim>\<open>JSON.stringify\<close> writes for
  such a value parses back to the value; number literals beyond the range of a double,
  which parse to \<^verbatim>\<open>Infinity\<close> and are written back as \<^verbatim>\<open>null\<close>, are left out.
\<close>

datatype json =
    JNull
  | JBool bool
  | JNum string
  | JString string
  | JArray "json list"
  | JObject "(string \<times> json) list"

text \<open>
  What an expression over such data can evaluate to: \<^verbatim>\<open>undefined\<close>, a piece of data, or
  a built-in method found on a prototype (named by its property name).
\<close>

datatype jsval = Undefined | Data json | Method string

datatype exn =
    TypeError
  | SyntaxError
  | QuillError string
  | Error string

text \<open>
  A text file is represented by what \<^verbatim>\<open>JSON.parse\<close> makes of its text: either the parse
  throws a SyntaxError or it returns a value. The empty text is one of the malformed texts.
\<close>

datatype json_text = Malformed | Wellformed json

definition JSON_parse :: "json_text \<Rightarrow> exn + json" where
  "JSON_parse t = (case t of Malformed \<Rightarrow> Inl SyntaxError | Wellformed v \<Rightarrow> Inr v)"

text \<open>Truthiness, as \<^verbatim>\<open>if (x)\<close>, \<^verbatim>\<open>!x\<close> and \<^verbatim>\<open>x || y\<close> test it.\<close>

fun truthy :: "jsval \<Rightarrow> bool" where
  "truthy Undefined = False"
| "truthy (Data JNull) = False"
| "truthy (Data (JBool b)) = b"
| "truthy (Data (JNum n)) = (n \<noteq> ''0'')"
| "truthy (Data (JString s)) = (s \<noteq> [])"
| "truthy (Data (JArray _)) = True"
| "truthy (Data (JObject _)) = True"
| "truthy (Method _) = True"

text \<open>
  Reading a named property, \<^verbatim>\<open>x.k\<close>. On \<^verbatim>\<open>undefined\<close> and \<^verbatim>\<open>null\<close> it throws a
  TypeError. An object answers with its own property or \<^verbatim>\<open>undefined\<close>; an array and a
  string have \<^verbatim>\<open>length\<close>; of the built-in methods of arrays and strings, the names
  that this program reads on such data are listed. None of the other names read by the program
  (\<^verbatim>\<open>version\<close>, \<^verbatim>\<open>toCommitHash\<close>, \<^verbatim>\<open>models\<close>, \<^verbatim>\<open>commit\<close>, \<^verbatim>\<open>changelog\<close>, \<^verbatim>\<open>provider\<close>,
  \<^verbatim>\<open>model\<close>) is on a built-in prototype.
\<close>

definition array_methods :: "string list" where
  "array_methods = [''entries'', ''unshift'', ''slice'']"

definition string_methods :: "string list" where
  "string_methods = [''slice'', ''replace'']"

text \<open>The \<^verbatim>\<open>length\<close> (number of parameters) of these built-in methods.\<close>

definition method_length :: "string \<Rightarrow> nat" where
  "method_length m = (if m = ''entries'' then 0 else if m = ''unshift'' then 1 else 2)"

fun get_prop :: "jsval \<Rightarrow> string \<Rightarrow> exn + jsval" where
  "get_prop Undefined k = Inl TypeError"
| "get_prop (Data JNull) k = Inl TypeError"
| "get_prop (Data (JBool b)) k = Inr Undefined"
| "get_prop (Data (JNum n)) k = Inr Undefined"
| "get_prop (Data (JString s)) k =
     Inr (if k = ''length'' then Data (JNum (decimal (length s)))
          else if k \<in> set string_methods then Method k else Undefined)"
| "get_prop (Data (JArray xs)) k =
     Inr (if k = ''length'' then Data (JNum (decimal (length xs)))
          else if k \<in> set array_methods then Method k else Undefined)"
| "get_prop (Data (JObject kvs)) k =
     Inr (case map_of kvs k of None \<Rightarrow> Undefined | Some v \<Rightarrow> Data v)"
| "get_prop (Method m) k =
     Inr (if k = ''length'' then Data (JNum (decimal (method_length m))) else Undefined)"

text \<open>Reading \<^verbatim>\<open>x[0]\<close>.\<close>

fun get_index0 :: "jsval \<Rightarrow> exn + jsval" where
  "get_index0 Undefined = Inl TypeError"
| "get_index0 (Data JNull) = Inl TypeError"
| "get_index0 (Data (JBool b)) = Inr Undefined"
| "get_index0 (Data (JNum n)) = Inr Undefined"
| "get_index0 (Data (JString s)) =
     Inr (case s of [] \<Rightarrow> Undefined | c # _ \<Rightarrow> Data (JString [c]))"
| "get_index0 (Data (JArray xs)) =
     Inr (case xs of [] \<Rightarrow> Undefined | x # _ \<Rightarrow> Data x)"
| "get_index0 (Data (JObject kvs)) =
     Inr (case map_of kvs ''0'' of None \<Rightarrow> Undefined | Some v \<Rightarrow> Data v)"
| "get_index0 (Method m) = Inr Undefined"

text \<open>
  Strict equality \<^verbatim>\<open>a === b\<close> of two values that come from two evaluations: primitives
  are compared by value, while two arrays or two objects are two references, never equal.
\<close>

fun is_reference :: "jsval \<Rightarrow> bool" where
  "is_reference (Data (JArray _)) = True"
| "is_reference (Data (JObject _)) = True"
| "is_reference _ = False"

definition strict_eq :: "jsval \<Rightarrow> jsval \<Rightarrow> bool" where
  "strict_eq a b = (if is_reference a \<or> is_reference b then False else a = b)"

section \<open>Strings\<close>

text \<open>\<^verbatim>\<open>s.startsWith("v")\<close> of \<^verbatim>\<open>src/utils/version.ts\<close>.\<close>

definition startsWith_v :: "string \<Rightarrow> bool" where
  "startsWith_v s = (case s of [] \<Rightarrow> False | c # _ \<Rightarrow> c = CHR ''v'')"

section \<open>Tags\<close>

record GitTag =
  name :: string
  hash :: string

text \<open>
  \<^verbatim>\<open>detectTagPrefix\<close> (\<^verbatim>\<open>src/utils/version.ts\<close>), on the list that \<^verbatim>\<open>getTags()\<close> returned.
\<close>

definition detectTagPrefix :: "GitTag list \<Rightarrow> string" where
  "detectTagPrefix tags =
     (if length tags = 0 then ''v''
      else
        let withV = length (filter (\<lambda>t. startsWith_v (name t)) tags);
            withoutV = length (filter (\<lambda>t. \<not> startsWith_v (name t)) tags)
        in if withV \<ge> withoutV then ''v'' else '''')"

section \<open>Version strings\<close>


definition formatVersion :: "string \<Rightarrow> string" where
  "formatVersion version = (if startsWith_v version then version else ''v'' @ version)"

section \<open>Regular expressions\<close>













section \<open>Version detection\<close>

record VersionChange =
  oldVersion :: jsval
  newVersion :: jsval
  changed :: bool

text \<open>
  One of the two blocks of \<^verbatim>\<open>detectVersionChange\<close> that turn the manifest's content at a
  reference into a version: \<^verbatim>\<open>null\<close> when \<^verbatim>\<open>getFileAtRef\<close> gave \<^verbatim>\<open>null\<close> (or the empty
  text, which is falsy and would not parse either), \<^verbatim>\<open>null\<close> when the \<^verbatim>\<open>try\<close> block throws
  (the parse, or reading \<^verbatim>\<open>version\<close> of \<^verbatim>\<open>null\<close>), else \<^verbatim>\<open>pkg.version || null\<close>.
\<close>

definition manifest_version :: "json_text option \<Rightarrow> jsval" where
  "manifest_version content =
     (case content of
        None \<Rightarrow> Data JNull
      | Some t \<Rightarrow>
          (case JSON_parse t of
             Inl _ \<Rightarrow> Data JNull
           | Inr pkg \<Rightarrow>
               (case get_prop (Data pkg) ''version'' of
                  Inl _ \<Rightarrow> Data JNull
                | Inr v \<Rightarrow> if truthy v then v else Data JNull)))"

text \<open>
  \<^verbatim>\<open>detectVersionChange\<close> (\<^verbatim>\<open>src/services/git.ts\<close>). Its first argument stands for
  \<^verbatim>\<open>getFileAtRef\<close>: the content \<^verbatim>\<open>git show ref:path\<close> prints, or nothing when git fails.
\<close>

definition detectVersionChange ::
  "(string \<Rightarrow> string \<Rightarrow> json_text option) \<Rightarrow> string \<Rightarrow> string \<Rightarrow> VersionChange" where
  "detectVersionChange getFileAtRef fromRef toRef =
     (let oldContent = getFileAtRef fromRef ''package.json'';
          newContent = getFileAtRef toRef ''package.json'';
          oldV = manifest_version oldContent;
          newV = manifest_version newContent
      in \<lparr>oldVersion = oldV, newVersion = newV,
          changed = (\<not> strict_eq oldV newV \<and> \<not> strict_eq newV (Data JNull))\<rparr>)"



section \<open>Exceptions\<close>

text \<open>
  A computation that may throw is a value of \<open>exn + 'a\<close>; \<open>bnd\<close> runs the next
  statement unless the one before threw.
\<close>

definition bnd :: "exn + 'a \<Rightarrow> ('a \<Rightarrow> exn + 'b) \<Rightarrow> exn + 'b" where
  "bnd m f = (case m of Inl x \<Rightarrow> Inl x | Inr v \<Rightarrow> f v)"

text \<open>Assigning \<^verbatim>\<open>o.k = v\<close> on an object: an own property keeps its place.\<close>

fun put_prop :: "(string \<times> json) list \<Rightarrow> string \<Rightarrow> json \<Rightarrow> (string \<times> json) list" where
  "put_prop [] k v = [(k, v)]"
| "put_prop ((k', v') # kvs) k v =
     (if k' = k then (k, v) # kvs else (k', v') # put_prop kvs k v)"

section \<open>Programs with state\<close>

text \<open>
  A command runs on a state and either returns or stops: by an exception, by
  \<^verbatim>\<open>process.exit\<close>, or by waiting for an answer that never comes. Whatever it did to the
  state before stopping stays done.
\<close>

datatype stop = Throw exn | ProcessExit nat | AwaitInput

type_synonym ('a, 's) prog = "'s \<Rightarrow> (stop + 'a) \<times> 's"

definition ret :: "'a \<Rightarrow> ('a, 's) prog" where
  "ret x = (\<lambda>s. (Inr x, s))"

definition halt :: "stop \<Rightarrow> ('a, 's) prog" where
  "halt e = (\<lambda>s. (Inl e, s))"

definition seq :: "('a, 's) prog \<Rightarrow> ('a \<Rightarrow> ('b, 's) prog) \<Rightarrow> ('b, 's) prog" where
  "seq m f = (\<lambda>s. case m s of (Inl e, s') \<Rightarrow> (Inl e, s') | (Inr v, s') \<Rightarrow> f v s')"

definition lift :: "exn + 'a \<Rightarrow> ('a, 's) prog" where
  "lift r = (case r of Inl e \<Rightarrow> halt (Throw e) | Inr v \<Rightarrow> ret v)"

text \<open>What the terminal shows: each line with the kind of call of \<^verbatim>\<open>prompts/interactive.ts\<close> that printed it.\<close>

datatype level =
    Intro | Outro | Info | Warn | Err | Success | Step | Message | Console | Spinner | Prompt | Cancel

record outputs =
  out :: "(level \<times> string) list"

definition say :: "level \<Rightarrow> string \<Rightarrow> (unit, 'a outputs_scheme) prog" where
  "say l m = (\<lambda>s. (Inr (), s\<lparr>out := out s @ [(l, m)]\<rparr>))"

text \<open>
  \<^verbatim>\<open>main\<close> (\<^verbatim>\<open>src/index.ts\<close>): an exception of the command is caught, shown by
  \<^verbatim>\<open>displayError\<close>, and the process exits with code 1; a command that returns lets the
  process end with code 0. No exit code while the command waits for input. The message
  of a built-in error is represented by the error's name.
\<close>

definition exn_message :: "exn \<Rightarrow> string" where
  "exn_message e = (case e of TypeError \<Rightarrow> ''TypeError'' | SyntaxError \<Rightarrow> ''SyntaxError''
                    | QuillError m \<Rightarrow> m | Error m \<Rightarrow> m)"

definition main :: "(unit, 'a outputs_scheme) prog \<Rightarrow> 'a outputs_scheme \<Rightarrow> nat option \<times> 'a outputs_scheme" where
  "main command s =
     (case command s of
        (Inr _, s') \<Rightarrow> (Some 0, s')
      | (Inl (Throw err), s') \<Rightarrow> (Some 1, snd (say Err (exn_message err) s'))
      | (Inl (ProcessExit n), s') \<Rightarrow> (Some n, s')
      | (Inl AwaitInput, s') \<Rightarrow> (None, s'))"

section \<open>Strings, continued\<close>

text \<open>\<^verbatim>\<open>s.split(c)\<close> for a separator of one character, and \<^verbatim>\<open>parts.join(sep)\<close>.\<close>

fun split_on :: "char \<Rightarrow> string \<Rightarrow> string list" where
  "split_on c [] = [[]]"
| "split_on c (x # xs) =
     (if x = c then [] # split_on c xs
      else (case split_on c xs of [] \<Rightarrow> [[x]] | p # ps \<Rightarrow> (x # p) # ps))"

fun join_with :: "string \<Rightarrow> string list \<Rightarrow> string" where
  "join_with sep [] = []"
| "join_with sep [p] = p"
| "join_with sep (p # q # ps) = p @ sep @ join_with sep (q # ps)"

text \<open>
  \<^verbatim>\<open>String(v)\<close>, as a template literal converts an interpolated value. An array joins
  its elements with commas, \<^verbatim>\<open>null\<close> elements as empty text. An object is
  \<^verbatim>\<open>[object Object]\<close>, unless it has a property \<^verbatim>\<open>toString\<close> of its own: in parsed data
  that is never a function, and then neither it nor \<^verbatim>\<open>valueOf\<close> yields a primitive and the
  conversion throws a TypeError.
\<close>

fun collect :: "(exn + 'a) list \<Rightarrow> exn + 'a list" where
  "collect [] = Inr []"
| "collect (Inl e # rs) = Inl e"
| "collect (Inr v # rs) = (case collect rs of Inl e \<Rightarrow> Inl e | Inr vs \<Rightarrow> Inr (v # vs))"

fun json_toString :: "json \<Rightarrow> exn + string" where
  "json_toString JNull = Inr ''null''"
| "json_toString (JBool b) = Inr (if b then ''true'' else ''false'')"
| "json_toString (JNum n) = Inr n"
| "json_toString (JString s) = Inr s"
| "json_toString (JArray xs) =
     (case collect (map (\<lambda>x. if x = JNull then Inr [] else json_toString x) xs) of
        Inl e \<Rightarrow> Inl e
      | Inr parts \<Rightarrow> Inr (join_with '','' parts))"
| "json_toString (JObject kvs) =
     (if map_of kvs ''toString'' = None then Inr ''[object Object]'' else Inl TypeError)"

definition js_toString :: "jsval \<Rightarrow> exn + string" where
  "js_toString v =
     (case v of
        Undefined \<Rightarrow> Inr ''undefined''
      | Data d \<Rightarrow> json_toString d
      | Method m \<Rightarrow> Inr (''function '' @ m @ ''() { [native code] }''))"

definition dq :: string where
  "dq = [CHR 0x22]"

text \<open>Truthiness of an optional string (\<^verbatim>\<open>undefined\<close> and the empty string are falsy).\<close>

definition given :: "string option \<Rightarrow> bool" where
  "given x = (case x of None \<Rightarrow> False | Some s \<Rightarrow> s \<noteq> [])"

text \<open>An optional string as a condition sees it: the string when it is truthy.\<close>

definition nonempty :: "string option \<Rightarrow> string option" where
  "nonempty x = (case x of None \<Rightarrow> None | Some s \<Rightarrow> if s = [] then None else Some s)"

section \<open>The changelog history store\<close>

record ChangelogHistoryEntry =
  e_timestamp :: string
  e_fromRef :: string
  e_toRef :: string
  e_toCommitHash :: string
  e_commitsIncluded :: nat

definition MAX_HISTORY_ENTRIES :: nat where
  "MAX_HISTORY_ENTRIES = 50"

text \<open>The object literal that \<^verbatim>\<open>addHistoryEntry\<close> receives, as data.\<close>

definition entry_json :: "ChangelogHistoryEntry \<Rightarrow> json" where
  "entry_json e = JObject
     [(''timestamp'', JString (e_timestamp e)),
      (''fromRef'', JString (e_fromRef e)),
      (''toRef'', JString (e_toRef e)),
      (''toCommitHash'', JString (e_toCommitHash e)),
      (''commitsIncluded'', JNum (decimal (e_commitsIncluded e)))]"

definition empty_history :: json where
  "empty_history = JObject [(''entries'', JArray [])]"

text \<open>
  \<^verbatim>\<open>getHistory\<close> (\<^verbatim>\<open>src/services/config.ts\<close>). The history file is absent (\<open>None\<close>) or has
  a text. The \<^verbatim>\<open>catch\<close> turns a throwing parse into the empty history; what parses is
  returned as it is, the cast to \<^verbatim>\<open>ChangelogHistory\<close> checking nothing at run time.
  (\<^verbatim>\<open>ensureConfigDir\<close> only creates the directory and is left out.)
\<close>

definition getHistory :: "json_text option \<Rightarrow> exn + json" where
  "getHistory historyFile =
     (case historyFile of
        None \<Rightarrow> Inr empty_history
      | Some content \<Rightarrow>
          (case JSON_parse content of
             Inl _ \<Rightarrow> Inr empty_history
           | Inr v \<Rightarrow> Inr v))"

text \<open>
  \<^verbatim>\<open>addHistoryEntry\<close>. \<^verbatim>\<open>history.entries.unshift(entry)\<close> reads \<^verbatim>\<open>entries\<close>, reads
  \<^verbatim>\<open>unshift\<close> of it and calls that: a TypeError unless it is the array method, that is
  unless \<^verbatim>\<open>entries\<close> is an array. The file then holds \<^verbatim>\<open>JSON.stringify(history)\<close>, a text
  that parses back to the same value. The result is the new content of the history file.
\<close>

definition addHistoryEntry ::
  "ChangelogHistoryEntry \<Rightarrow> json_text option \<Rightarrow> exn + json_text option" where
  "addHistoryEntry entry historyFile =
     bnd (getHistory historyFile) (\<lambda>history.
     bnd (get_prop (Data history) ''entries'') (\<lambda>entries.
     bnd (get_prop entries ''unshift'') (\<lambda>unshift.
       (case (history, entries, unshift) of
          (JObject kvs, Data (JArray xs), Method _) \<Rightarrow>
            (let xs1 = entry_json entry # xs;
                 xs2 = (if length xs1 > MAX_HISTORY_ENTRIES
                        then take MAX_HISTORY_ENTRIES xs1 else xs1)
             in Inr (Some (Wellformed (JObject (put_prop kvs ''entries'' (JArray xs2))))))
        | _ \<Rightarrow> Inl TypeError))))"

text \<open>
  \<^verbatim>\<open>getLastChangelogRef\<close>: \<^verbatim>\<open>history.entries.length === 0\<close>, then
  \<^verbatim>\<open>history.entries[0].toCommitHash\<close>, each read throwing on \<^verbatim>\<open>undefined\<close> and \<^verbatim>\<open>null\<close>.
\<close>

definition getLastChangelogRef :: "json_text option \<Rightarrow> exn + jsval" where
  "getLastChangelogRef historyFile =
     bnd (getHistory historyFile) (\<lambda>history.
     bnd (get_prop (Data history) ''entries'') (\<lambda>entries.
     bnd (get_prop entries ''length'') (\<lambda>len.
       if len = Data (JNum ''0'') then Inr (Data JNull)
       else bnd (get_index0 entries) (\<lambda>first. get_prop first ''toCommitHash''))))"

text \<open>A run of appends, each on the file the one before wrote; it stops at the first throw.\<close>

fun append_all :: "ChangelogHistoryEntry list \<Rightarrow> json_text option \<Rightarrow> exn + json_text option" where
  "append_all [] historyFile = Inr historyFile"
| "append_all (e # es) historyFile = bnd (addHistoryEntry e historyFile) (append_all es)"

text \<open>
  The entries of the history that a file holds, when \<^verbatim>\<open>getHistory\<close> gives an object whose
  \<^verbatim>\<open>entries\<close> is an array (as a \<^verbatim>\<open>ChangelogHistory\<close> is).
\<close>

definition loaded_entries :: "json_text option \<Rightarrow> json list option" where
  "loaded_entries historyFile =
     (case getHistory historyFile of
        Inr (JObject kvs) \<Rightarrow>
          (case map_of kvs ''entries'' of Some (JArray xs) \<Rightarrow> Some xs | _ \<Rightarrow> None)
      | _ \<Rightarrow> None)"

definition sample_entry :: "string \<Rightarrow> ChangelogHistoryEntry" where
  "sample_entry h = \<lparr>e_timestamp = ''2024-01-01T00:00:00.000Z'', e_fromRef = ''v1.0.0'',
     e_toRef = ''HEAD'', e_toCommitHash = h, e_commitsIncluded = 3\<rparr>"

section \<open>Configuration\<close>

definition default_model :: json where
  "default_model = JObject [(''provider'', JString ''openai''), (''model'', JString ''gpt-5.1-codex-mini'')]"

definition DEFAULT_CONFIG_props :: "(string \<times> json) list" where
  "DEFAULT_CONFIG_props =
     [(''models'', JObject [(''commit'', default_model), (''changelog'', default_model)])]"

definition DEFAULT_CONFIG :: json where
  "DEFAULT_CONFIG = JObject DEFAULT_CONFIG_props"

text \<open>
  An object spread \<^verbatim>\<open>{...a, ...v}\<close> copies the own enumerable properties of \<^verbatim>\<open>v\<close> over
  those of \<^verbatim>\<open>a\<close>: the properties of an object, the elements of an array and the
  characters of a string under their indices, and nothing of \<^verbatim>\<open>null\<close>, a number or a
  boolean.
\<close>

definition indexed :: "json list \<Rightarrow> (string \<times> json) list" where
  "indexed xs = zip (map decimal [0..<length xs]) xs"

fun own_props :: "json \<Rightarrow> (string \<times> json) list" where
  "own_props (JObject kvs) = kvs"
| "own_props (JArray xs) = indexed xs"
| "own_props (JString s) = indexed (map (\<lambda>c. JString [c]) s)"
| "own_props _ = []"

definition spread :: "(string \<times> json) list \<Rightarrow> json \<Rightarrow> (string \<times> json) list" where
  "spread base v = foldr (\<lambda>(k, x) acc. put_prop acc k x) (own_props v) base"

record cfg_state = outputs +
  configFile :: "json_text option"

text \<open>
  \<^verbatim>\<open>saveConfig\<close> and \<^verbatim>\<open>getConfig\<close> (\<^verbatim>\<open>src/services/config.ts\<close>). The file written holds
  \<^verbatim>\<open>JSON.stringify(config)\<close>, which parses back to \<^verbatim>\<open>config\<close>.
\<close>

definition saveConfig :: "json \<Rightarrow> (unit, cfg_state) prog" where
  "saveConfig config = (\<lambda>s. (Inr (), s\<lparr>configFile := Some (Wellformed config)\<rparr>))"

definition getConfig :: "(json, cfg_state) prog" where
  "getConfig = (\<lambda>s.
     case configFile s of
       None \<Rightarrow> seq (saveConfig DEFAULT_CONFIG) (\<lambda>_. ret DEFAULT_CONFIG) s
     | Some content \<Rightarrow>
         (case JSON_parse content of
            Inl _ \<Rightarrow> ret DEFAULT_CONFIG s
          | Inr config \<Rightarrow> ret (JObject (spread DEFAULT_CONFIG_props config)) s))"

section \<open>The config command\<close>

record ConfigOptions =
  commitModel :: "string option"
  changelogModel :: "string option"
  listModels :: bool

record Provider =
  p_id :: string
  p_name :: string
  p_models :: "string list"

text \<open>\<^verbatim>\<open>parseModelString\<close> (\<^verbatim>\<open>src/cli/commands/config.ts\<close>); \<open>None\<close> is its \<^verbatim>\<open>null\<close>.\<close>

definition parseModelString :: "string \<Rightarrow> (string \<times> string) option" where
  "parseModelString modelString =
     (let parts = split_on CHR ''/'' modelString
      in if length parts < 2 then None
         else (case parts of
                 [] \<Rightarrow> None
               | provider # rest \<Rightarrow> Some (provider, join_with ''/'' rest)))"

definition model_json :: "string \<times> string \<Rightarrow> json" where
  "model_json parsed = JObject [(''provider'', JString (fst parsed)), (''model'', JString (snd parsed))]"

text \<open>
  The assignment \<^verbatim>\<open>config.models.k = parsed\<close>, giving the configuration after it.
  Reading \<^verbatim>\<open>models\<close> of the configuration object and setting a property on the result
  throws a TypeError when that is \<^verbatim>\<open>undefined\<close>, \<^verbatim>\<open>null\<close> or (the module being strict
  code) a primitive. Set on an array, the property is no part of what
  \<^verbatim>\<open>JSON.stringify\<close> writes.
\<close>

definition assign_model :: "json \<Rightarrow> string \<Rightarrow> json \<Rightarrow> exn + json" where
  "assign_model config k parsed =
     bnd (get_prop (Data config) ''models'') (\<lambda>models.
       case (config, models) of
         (JObject ckvs, Data (JObject mkvs)) \<Rightarrow>
           Inr (JObject (put_prop ckvs ''models'' (JObject (put_prop mkvs k parsed))))
       | (JObject ckvs, Data (JArray xs)) \<Rightarrow> Inr config
       | _ \<Rightarrow> Inl TypeError)"

text \<open>
  One of the two blocks of \<^verbatim>\<open>updateModels\<close>, for the commit or the changelog model:
  \<open>None\<close> when the block returns from \<^verbatim>\<open>updateModels\<close>, else the configuration after the
  assignment.
\<close>

definition set_model :: "string \<Rightarrow> string \<Rightarrow> string \<Rightarrow> json \<Rightarrow> (json option, cfg_state) prog" where
  "set_model k label modelString config =
     (case parseModelString modelString of
        None \<Rightarrow>
          seq (say Err (''Invalid model format: '' @ dq @ modelString @ dq)) (\<lambda>_.
          seq (say Info ''Expected format: provider/model (e.g., anthropic/claude-sonnet-4-5)'') (\<lambda>_.
          ret None))
      | Some parsed \<Rightarrow>
          seq (lift (assign_model config k (model_json parsed))) (\<lambda>config'.
          seq (say Success (label @ '' model set to: '' @ fst parsed @ ''/'' @ snd parsed)) (\<lambda>_.
          ret (Some config'))))"

definition updateModels :: "ConfigOptions \<Rightarrow> (unit, cfg_state) prog" where
  "updateModels options =
     seq getConfig (\<lambda>config.
     seq (case commitModel options of
            None \<Rightarrow> ret (Some config)
          | Some m \<Rightarrow> if m = [] then ret (Some config) else set_model ''commit'' ''Commit'' m config)
       (\<lambda>r1. case r1 of
          None \<Rightarrow> ret ()
        | Some config1 \<Rightarrow>
     seq (case changelogModel options of
            None \<Rightarrow> ret (Some config1)
          | Some m \<Rightarrow> if m = [] then ret (Some config1)
                      else set_model ''changelog'' ''Changelog'' m config1)
       (\<lambda>r2. case r2 of
          None \<Rightarrow> ret ()
        | Some config2 \<Rightarrow>
     seq (saveConfig config2) (\<lambda>_.
     say Info ''Configuration saved to .quill/config.json''))))"

text \<open>
  \<^verbatim>\<open>withSpinner\<close> (\<^verbatim>\<open>src/prompts/interactive.ts\<close>): the spinner's lines around a call
  that may throw; the exception is thrown on.
\<close>

definition withSpinner ::
  "string \<Rightarrow> ('a, 'b outputs_scheme) prog \<Rightarrow> string \<Rightarrow> ('a, 'b outputs_scheme) prog" where
  "withSpinner msg fn successMsg =
     seq (say Spinner msg) (\<lambda>_ s.
       case fn s of
         (Inr result, s') \<Rightarrow>
           seq (say Spinner (if successMsg = [] then msg else successMsg)) (\<lambda>_. ret result) s'
       | (Inl (Throw err), s') \<Rightarrow> seq (say Spinner ''Failed'') (\<lambda>_. halt (Throw err)) s'
       | (Inl other, s') \<Rightarrow> (Inl other, s'))"

text \<open>
  \<^verbatim>\<open>showAvailableModels\<close>; its argument is what \<^verbatim>\<open>listProviders\<close> of the AI service
  returns or throws.
\<close>

definition provider_lines :: "Provider \<Rightarrow> string list" where
  "provider_lines provider =
     [''  '' @ p_name provider @ '' ('' @ p_id provider @ ''):'']
     @ (if length (p_models provider) = 0 then [''    No models available'']
        else map (\<lambda>model. ''    - '' @ p_id provider @ ''/'' @ model) (take 10 (p_models provider))
           @ (if length (p_models provider) > 10
              then [''    ... and '' @ decimal (length (p_models provider) - 10) @ '' more'']
              else []))
     @ ['''']"

fun say_all :: "level \<Rightarrow> string list \<Rightarrow> (unit, 'a outputs_scheme) prog" where
  "say_all l [] = ret ()"
| "say_all l (m # ms) = seq (say l m) (\<lambda>_. say_all l ms)"

definition showAvailableModels :: "(exn + Provider list) \<Rightarrow> (unit, cfg_state) prog" where
  "showAvailableModels listProviders =
     seq (withSpinner ''Fetching available providers...'' (lift listProviders) ''Fetched providers'')
       (\<lambda>providers.
          if length providers = 0
          then say Warn ''No providers available. Make sure OpenCode is configured.''
          else seq (say Info ''Available providers and models:'') (\<lambda>_.
               seq (say Console '''') (\<lambda>_.
               say_all Console (concat (map provider_lines providers)))))"

text \<open>\<^verbatim>\<open>showCurrentConfig\<close>; \<open>model_line\<close> is the interpolated part of one of its two lines.\<close>

definition model_line :: "json \<Rightarrow> string \<Rightarrow> exn + string" where
  "model_line config k =
     bnd (get_prop (Data config) ''models'') (\<lambda>models.
     bnd (get_prop models k) (\<lambda>m.
     bnd (get_prop m ''provider'') (\<lambda>provider.
     bnd (js_toString provider) (\<lambda>p.
     bnd (get_prop m ''model'') (\<lambda>model.
     bnd (js_toString model) (\<lambda>mo. Inr (p @ ''/'' @ mo)))))))"

definition showCurrentConfig :: "(unit, cfg_state) prog" where
  "showCurrentConfig =
     seq getConfig (\<lambda>config.
     seq (say Info ''Current configuration:'') (\<lambda>_.
     seq (say Console '''') (\<lambda>_.
     seq (lift (model_line config ''commit'')) (\<lambda>l1.
     seq (say Console (''  Commit model:    '' @ l1)) (\<lambda>_.
     seq (lift (model_line config ''changelog'')) (\<lambda>l2.
     seq (say Console (''  Changelog model: '' @ l2)) (\<lambda>_.
     seq (say Console '''') (\<lambda>_.
     seq (say Message ''Use --commit-model or --changelog-model to change settings.'') (\<lambda>_.
     say Message ''Use --list-models to see available providers and models.'')))))))))"

text \<open>A string is malformed as a model selection when it has no slash.\<close>

definition malformed :: "string \<Rightarrow> bool" where
  "malformed modelString = (CHR ''/'' \<notin> set modelString)"

text \<open>The model string that \<^verbatim>\<open>updateModels\<close> examines first: the commit model when given, else the changelog model.\<close>

definition first_model :: "ConfigOptions \<Rightarrow> string option" where
  "first_model options =
     (if given (commitModel options) then commitModel options else changelogModel options)"

definition configCommand :: "(exn + Provider list) \<Rightarrow> ConfigOptions \<Rightarrow> (unit, cfg_state) prog" where
  "configCommand listProviders options =
     seq (say Intro '' quill '') (\<lambda>_.
       if listModels options
       then seq (showAvailableModels listProviders) (\<lambda>_. say Outro ''Done!'')
       else if given (commitModel options) \<or> given (changelogModel options)
       then seq (updateModels options) (\<lambda>_. say Outro ''Done!'')
       else seq showCurrentConfig (\<lambda>_. say Outro ''Done!''))"

section \<open>The repository, the backend and the user\<close>

text \<open>
  What the changelog and release commands work with. Git is an external collaborator:
  \<open>repo\<close> holds what the functions of \<^verbatim>\<open>src/services/git.ts\<close> answer in one state of the
  repository, an exception where the function lets git's failure through, and the
  environment gives such a record for every sequence of mutations that the program has
  made so far.
\<close>

datatype git_op = StageAll | Commit string | AddTag string | Push bool

record GitStatus =
  staged :: "string list"
  unstaged :: "string list"
  untracked :: "string list"
  isClean :: bool

record GitCommit =
  c_hash :: string
  c_shortHash :: string
  c_message :: string
  c_author :: string
  c_date :: string

record repo =
  isGitRepo :: bool
  getStatus :: "exn + GitStatus"
  getStagedDiff :: "exn + string"
  getTags :: "exn + GitTag list"
  getFirstCommit :: "string option"
  getRecentCommits :: "exn + GitCommit list"
  getCommitsBetween :: "string \<Rightarrow> string \<Rightarrow> exn + GitCommit list"
  getFileAtRef :: "string \<Rightarrow> string \<Rightarrow> json_text option"
  resolveRef :: "string \<Rightarrow> exn + string"
  hasRemote :: bool
  refuses :: "git_op \<Rightarrow> exn option"

text \<open>
  The environment: git as above; the functions of \<^verbatim>\<open>src/services/ai.ts\<close>, each by the
  text it returns or the QuillError it throws (they use the backend, and of the files
  only the configuration and the prompt templates); the clipboard; and the clock.
\<close>

record env =
  git :: "git_op list \<Rightarrow> repo"
  generateCommitMessage :: "string \<Rightarrow> exn + string"
  generateChangelog :: "(string \<times> string) list \<Rightarrow> jsval \<Rightarrow> string \<Rightarrow> string \<Rightarrow> exn + string"
  mergeChangelog :: "string \<Rightarrow> string \<Rightarrow> exn + string"
  copyToClipboard :: "string \<Rightarrow> bool"
  now :: string

text \<open>
  The state: the terminal's lines, \<^verbatim>\<open>CHANGELOG.md\<close>, the history file, the git
  mutations made (oldest first), and the answers the user is still going to give to the
  prompts of each kind, \<open>None\<close> for a cancelled prompt.
\<close>

record world = outputs +
  changelogFile :: "string option"
  historyFile :: "json_text option"
  gitOps :: "git_op list"
  confirms :: "bool option list"
  selects :: "string option list"
  texts :: "string option list"

definition ask :: "env \<Rightarrow> (repo \<Rightarrow> exn + 'a) \<Rightarrow> ('a, world) prog" where
  "ask E q = (\<lambda>s. lift (q (git E (gitOps s))) s)"

definition look :: "env \<Rightarrow> (repo \<Rightarrow> 'a) \<Rightarrow> ('a, world) prog" where
  "look E q = (\<lambda>s. ret (q (git E (gitOps s))) s)"


text \<open>
  The prompts of \<^verbatim>\<open>src/prompts/interactive.ts\<close>. \<^verbatim>\<open>handleCancel\<close> ends the process with
  code 0 when the prompt was cancelled. A \<^verbatim>\<open>select\<close> returns the value of one of its
  options; any other answer is not one the user can give.
\<close>

definition cancelled :: "('a, world) prog" where
  "cancelled = seq (say Cancel ''Operation cancelled.'') (\<lambda>_. halt (ProcessExit 0))"

definition confirm :: "string \<Rightarrow> (bool, world) prog" where
  "confirm msg = seq (say Prompt msg) (\<lambda>_ s.
     case confirms s of
       [] \<Rightarrow> (Inl AwaitInput, s)
     | None # rest \<Rightarrow> cancelled (s\<lparr>confirms := rest\<rparr>)
     | Some b # rest \<Rightarrow> (Inr b, s\<lparr>confirms := rest\<rparr>))"


definition select :: "string \<Rightarrow> string list \<Rightarrow> (string, world) prog" where
  "select msg values = seq (say Prompt msg) (\<lambda>_ s.
     case selects s of
       [] \<Rightarrow> (Inl AwaitInput, s)
     | None # rest \<Rightarrow> cancelled (s\<lparr>selects := rest\<rparr>)
     | Some v # rest \<Rightarrow>
         if v \<in> set values then (Inr v, s\<lparr>selects := rest\<rparr>) else (Inl AwaitInput, s))"

text \<open>\<^verbatim>\<open>ensureGitRepo\<close> (\<^verbatim>\<open>src/services/git.ts\<close>).\<close>

definition ensureGitRepo :: "env \<Rightarrow> (unit, world) prog" where
  "ensureGitRepo E =
     seq (look E isGitRepo) (\<lambda>isRepo.
       if \<not> isRepo
       then halt (Throw (QuillError (''Not a git repository.'' @ [CHR 0x0A]
              @ ''Please run this command from within a git repository.'')))
       else ret ())"



definition call_slice :: "jsval \<Rightarrow> exn + unit" where
  "call_slice x =
     bnd (get_prop x ''slice'') (\<lambda>m. case m of Method _ \<Rightarrow> Inr () | _ \<Rightarrow> Inl TypeError)"

section \<open>The changelog command\<close>

record ChangelogOptions =
  opt_from :: "string option"
  opt_to :: "string option"

text \<open>
  The files, as \<^verbatim>\<open>src/services/config.ts\<close> reads and writes them in the state:
  \<^verbatim>\<open>readChangelog\<close>, \<^verbatim>\<open>writeChangelog\<close>, and \<^verbatim>\<open>addHistoryEntry\<close> on the history file.
\<close>

definition readChangelog :: "(string option, world) prog" where
  "readChangelog = (\<lambda>s. ret (changelogFile s) s)"

definition writeChangelog :: "string \<Rightarrow> (unit, world) prog" where
  "writeChangelog content = (\<lambda>s. (Inr (), s\<lparr>changelogFile := Some content\<rparr>))"

definition appendHistory :: "ChangelogHistoryEntry \<Rightarrow> (unit, world) prog" where
  "appendHistory entry = (\<lambda>s.
     case addHistoryEntry entry (historyFile s) of
       Inl err \<Rightarrow> (Inl (Throw err), s)
     | Inr written \<Rightarrow> (Inr (), s\<lparr>historyFile := written\<rparr>))"

text \<open>\<^verbatim>\<open>displayChangelog\<close>: the content between two rules of fifty box-drawing dashes.\<close>

definition rule50 :: string where
  "rule50 = concat (replicate 50 [CHR 0xE2, CHR 0x94, CHR 0x80])"

definition displayChangelog :: "string \<Rightarrow> (unit, world) prog" where
  "displayChangelog content = say_all Console ['''', rule50, content, rule50, '''']"

text \<open>\<^verbatim>\<open>saveChangelog\<close>, \<^verbatim>\<open>recordHistory\<close> (\<^verbatim>\<open>src/cli/commands/changelog.ts\<close>).\<close>

definition saveChangelog :: "env \<Rightarrow> string \<Rightarrow> (unit, world) prog" where
  "saveChangelog E newContent =
     seq readChangelog (\<lambda>existing.
       case nonempty existing of
         Some ex \<Rightarrow>
           seq (confirm ''CHANGELOG.md exists. Merge new content?'') (\<lambda>shouldMerge.
             if shouldMerge
             then seq (withSpinner ''Merging changelog...''
                         (lift (mergeChangelog E ex newContent)) ''Merged changelog'') (\<lambda>merged.
                  seq (writeChangelog merged) (\<lambda>_.
                  say Success ''Saved to CHANGELOG.md (merged)''))
             else seq (confirm ''Overwrite existing file?'') (\<lambda>overwrite.
                    if overwrite
                    then seq (writeChangelog newContent) (\<lambda>_.
                         say Success ''Saved to CHANGELOG.md (overwritten)'')
                    else say Warn ''Changelog not saved.''))
       | None \<Rightarrow> seq (writeChangelog newContent) (\<lambda>_. say Success ''Saved to CHANGELOG.md''))"

definition recordHistory :: "env \<Rightarrow> string \<Rightarrow> string \<Rightarrow> nat \<Rightarrow> (unit, world) prog" where
  "recordHistory E fromRef toRef count =
     seq (ask E (\<lambda>r. resolveRef r toRef)) (\<lambda>toHash.
     appendHistory \<lparr>e_timestamp = now E, e_fromRef = fromRef, e_toRef = toRef,
                    e_toCommitHash = toHash, e_commitsIncluded = count\<rparr>)"

text \<open>
  \<^verbatim>\<open>selectFromRef\<close>. Of the options only the values matter here. The one for the last
  changelog interpolates \<^verbatim>\<open>lastRef\<close> and calls \<^verbatim>\<open>lastRef.slice\<close>, whatever value the
  history file gave. \<open>None\<close> is \<^verbatim>\<open>undefined\<close>; the chosen value is split at its colons and
  the second part returned.
\<close>

definition selectFromRef :: "env \<Rightarrow> (string option, world) prog" where
  "selectFromRef E =
     seq (\<lambda>s. lift (getLastChangelogRef (historyFile s)) s) (\<lambda>lastRef.
     seq (ask E getTags) (\<lambda>tags.
     seq (ask E getRecentCommits) (\<lambda>recentCommits.
     seq (if truthy lastRef
          then seq (lift (js_toString lastRef)) (\<lambda>shown.
               seq (lift (call_slice lastRef)) (\<lambda>_.
               ret [''commit:'' @ shown]))
          else ret []) (\<lambda>sinceLast.
       let options = sinceLast
             @ map (\<lambda>tag. ''tag:'' @ name tag) (take 10 tags)
             @ map (\<lambda>commit. ''commit:'' @ c_hash commit) (take 10 recentCommits)
       in if length options = 0
          then seq (look E getFirstCommit) (\<lambda>first. ret (nonempty first))
          else seq (select ''Select starting reference:'' options) (\<lambda>selected.
                 case split_on CHR '':'' selected of
                   type # ref # _ \<Rightarrow> ret (Some ref)
                 | _ \<Rightarrow> ret None)))))"

text \<open>
  The menu loop of \<^verbatim>\<open>changelogCommand\<close>: every round takes one answer of the user, and
  "copy" goes round again.
\<close>

function menu_loop :: "env \<Rightarrow> string \<Rightarrow> string \<Rightarrow> string \<Rightarrow> nat \<Rightarrow> (unit, world) prog" where
  "menu_loop E changelog fromRef toRef count s =
     (case select ''What would you like to do?'' [''save'', ''copy'', ''done''] s of
        (Inl stop, s1) \<Rightarrow> (Inl stop, s1)
      | (Inr action, s1) \<Rightarrow>
          if action = ''save''
          then seq (saveChangelog E changelog) (\<lambda>_. recordHistory E fromRef toRef count) s1
          else if action = ''copy''
          then menu_loop E changelog fromRef toRef count
                 (snd ((if copyToClipboard E changelog
                        then say Success ''Copied to clipboard!''
                        else say Warn ''Failed to copy to clipboard.'') s1))
          else ret () s1)"
  by pat_completeness auto
termination
  by (relation "measure (\<lambda>(E, changelog, fromRef, toRef, count, s). length (selects s))")
    (auto simp: say_def select_def seq_def cancelled_def halt_def
       split: list.splits option.splits if_splits)

declare menu_loop.simps [simp del]

text \<open>
  \<^verbatim>\<open>changelogCommand\<close>, in its two parts: \<open>changelogRange\<close>, lines 40 to 49, settles the
  two references (\<open>None\<close> when it returns from the command), and \<open>changelogBody\<close> is the
  rest.
\<close>

definition changelogRange :: "env \<Rightarrow> ChangelogOptions \<Rightarrow> ((string \<times> string) option, world) prog" where
  "changelogRange E options =
     (let toRef = (case nonempty (opt_to options) of Some t \<Rightarrow> t | None \<Rightarrow> ''HEAD'')
      in case nonempty (opt_from options) of
           None \<Rightarrow>
             seq (selectFromRef E) (\<lambda>fromRef.
               case nonempty fromRef of
                 None \<Rightarrow> seq (say Warn ''No starting reference selected.'') (\<lambda>_. ret None)
               | Some f \<Rightarrow> ret (Some (f, toRef)))
         | Some f \<Rightarrow> ret (Some (f, toRef)))"

definition changelogBody :: "env \<Rightarrow> string \<Rightarrow> string \<Rightarrow> (unit, world) prog" where
  "changelogBody E fromRef toRef =
     seq (say Info (''Generating changelog from '' @ fromRef @ '' to '' @ toRef)) (\<lambda>_.
     seq (ask E (\<lambda>r. getCommitsBetween r fromRef toRef)) (\<lambda>commits.
       if length commits = 0
       then say Warn ''No commits found in the specified range.''
       else
         seq (say Info (''Found '' @ decimal (length commits) @ '' commits'')) (\<lambda>_.
         seq (look E (\<lambda>r. detectVersionChange (getFileAtRef r) fromRef toRef)) (\<lambda>versionChange.
           let version = (if changed versionChange then newVersion versionChange else Data JNull)
           in
         seq (withSpinner ''Generating changelog...''
                (lift (generateChangelog E (map (\<lambda>c. (c_shortHash c, c_message c)) commits)
                         version fromRef toRef))
                ''Generated changelog'') (\<lambda>changelog.
         seq (displayChangelog changelog) (\<lambda>_.
         seq (menu_loop E changelog fromRef toRef (length commits)) (\<lambda>_.
         say Outro ''Done!'')))))))"

definition changelogCommand :: "env \<Rightarrow> ChangelogOptions \<Rightarrow> (unit, world) prog" where
  "changelogCommand E options =
     seq (say Intro '' quill '') (\<lambda>_.
     seq (ensureGitRepo E) (\<lambda>_.
     seq (changelogRange E options) (\<lambda>range.
       case range of
         None \<Rightarrow> ret ()
       | Some (fromRef, toRef) \<Rightarrow> changelogBody E fromRef toRef)))"

text \<open>\<^verbatim>\<open>generateAndSaveChangelog\<close>, which the release workflow calls.\<close>

definition generateAndSaveChangelog :: "env \<Rightarrow> string \<Rightarrow> string \<Rightarrow> jsval \<Rightarrow> (string, world) prog" where
  "generateAndSaveChangelog E fromRef toRef version =
     seq (ask E (\<lambda>r. getCommitsBetween r fromRef toRef)) (\<lambda>commits.
       if length commits = 0
       then ret ''''
       else
         seq (lift (generateChangelog E (map (\<lambda>c. (c_shortHash c, c_message c)) commits)
                      version fromRef toRef)) (\<lambda>changelog.
         seq readChangelog (\<lambda>existing.
         seq (case nonempty existing of
                Some ex \<Rightarrow> seq (lift (mergeChangelog E ex changelog)) writeChangelog
              | None \<Rightarrow> writeChangelog changelog) (\<lambda>_.
         seq (ask E (\<lambda>r. resolveRef r toRef)) (\<lambda>toHash.
         seq (appendHistory \<lparr>e_timestamp = now E, e_fromRef = fromRef, e_toRef = toRef,
                e_toCommitHash = toHash, e_commitsIncluded = length commits\<rparr>) (\<lambda>_.
         ret changelog))))))"

section \<open>The release command\<close>













text \<open>
  A program writes nothing when, however it ends, \<^verbatim>\<open>CHANGELOG.md\<close>, the history file
  and the repository are as before.
\<close>

definition writes_nothing :: "('a, world) prog \<Rightarrow> bool" where
  "writes_nothing m =
     (\<forall>s. changelogFile (snd (m s)) = changelogFile s
        \<and> historyFile (snd (m s)) = historyFile s
        \<and> gitOps (snd (m s)) = gitOps s)"

section \<open>A sample repository\<close>

text \<open>
  An empty repository with a clean working tree: no tags, no commits, no manifest, no
  remote; and a backend that answers with a fixed text.
\<close>

definition empty_repo :: repo where
  "empty_repo =
     \<lparr>isGitRepo = True,
      getStatus = Inr \<lparr>staged = [], unstaged = [], untracked = [], isClean = True\<rparr>,
      getStagedDiff = Inr [],
      getTags = Inr [],
      getFirstCommit = None,
      getRecentCommits = Inr [],
      getCommitsBetween = (\<lambda>a b. Inr []),
      getFileAtRef = (\<lambda>r p. None),
      resolveRef = (\<lambda>r. Inr ''abc1234''),
      hasRemote = False,
      refuses = (\<lambda>op. None)\<rparr>"

definition sample_env :: "repo \<Rightarrow> env" where
  "sample_env r =
     \<lparr>git = (\<lambda>ops. r),
      generateCommitMessage = (\<lambda>diff. Inr ''chore: update''),
      generateChangelog = (\<lambda>commits version a b. Inr ''## [Unreleased]''),
      mergeChangelog = (\<lambda>existing new. Inr (new @ existing)),
      copyToClipboard = (\<lambda>t. True),
      now = ''2024-01-01T00:00:00.000Z''\<rparr>"


definition start_world :: world where
  "start_world =
     \<lparr>out = [], changelogFile = None, historyFile = None, gitOps = [],
      confirms = [], selects = [], texts = []\<rparr>"

section \<open>Theorems\<close>

lemma count_split:
  "length (filter P xs) + length (filter (\<lambda>x. \<not> P x) xs) = length xs"
  by (induction xs) auto

text \<open>
  C4. \<^verbatim>\<open>detectTagPrefix\<close> answers "v" for no tags, "v" when as many tag names start
  with v as do not, and otherwise "v" exactly when the names starting with v are a strict
  majority of all tags and the empty prefix exactly when they are a strict minority.
\<close>

theorem detectTagPrefix_majority:
  fixes tags :: "GitTag list"
  defines "withV \<equiv> length (filter (\<lambda>t. startsWith_v (name t)) tags)"
      and "withoutV \<equiv> length (filter (\<lambda>t. \<not> startsWith_v (name t)) tags)"
  shows "(tags = [] \<longrightarrow> detectTagPrefix tags = ''v'')
       \<and> (withV = withoutV \<longrightarrow> detectTagPrefix tags = ''v'')
       \<and> (withV \<noteq> withoutV \<longrightarrow>
            (detectTagPrefix tags = ''v'' \<longleftrightarrow> 2 * withV > length tags)
          \<and> (detectTagPrefix tags = '''' \<longleftrightarrow> 2 * withV < length tags))"
proof -
  have total: "withV + withoutV = length tags"
    unfolding withV_def withoutV_def by (rule count_split)
  show ?thesis
    using total unfolding detectTagPrefix_def Let_def withV_def withoutV_def
    by auto
qed

theorem detectTagPrefix_majority_witness:
  "length (filter (\<lambda>t. startsWith_v (name t))
      [\<lparr>name = ''v1.0.0'', hash = ''a1''\<rparr>, \<lparr>name = ''1.1.0'', hash = ''b2''\<rparr>,
       \<lparr>name = ''1.2.0'', hash = ''c3''\<rparr>]) = 1
   \<and> detectTagPrefix
      [\<lparr>name = ''v1.0.0'', hash = ''a1''\<rparr>, \<lparr>name = ''1.1.0'', hash = ''b2''\<rparr>,
       \<lparr>name = ''1.2.0'', hash = ''c3''\<rparr>] = []"
  using detectTagPrefix_majority
    [of "[\<lparr>name = ''v1.0.0'', hash = ''a1''\<rparr>, \<lparr>name = ''1.1.0'', hash = ''b2''\<rparr>,
          \<lparr>name = ''1.2.0'', hash = ''c3''\<rparr>]"]
  by (simp add: startsWith_v_def)


lemma manifest_version_cases:
  "manifest_version c = Data JNull \<or> truthy (manifest_version c)"
  by (auto simp: manifest_version_def split: option.splits sum.splits)







subsection \<open>Numbers in print\<close>

lemma decimal_nonempty: "decimal n \<noteq> []"
  by (subst decimal.simps) simp

lemma digit_zero_iff: "d < 10 \<Longrightarrow> (digit d = CHR ''0'') = (d = 0)"
proof -
  assume d: "d < 10"
  have "(digit d = CHR ''0'') = (of_char (digit d) = (of_char (CHR ''0'') :: nat))"
    by (simp only: of_char_eq_iff)
  also have "\<dots> = (d = 0)" using d by (simp add: digit_def take_bit_nat_eq_self)
  finally show ?thesis .
qed

lemma decimal_zero_iff: "(decimal n = ''0'') = (n = 0)"
proof (cases "n < 10")
  case True
  then show ?thesis by (subst decimal.simps) (simp add: digit_zero_iff)
next
  case False
  have "length (decimal n) \<ge> 2"
    using False decimal_nonempty [of "n div 10"]
    by (subst decimal.simps) (cases "decimal (n div 10)"; simp)
  with False show ?thesis by auto
qed

subsection \<open>The history store\<close>

lemma map_of_put_prop: "map_of (put_prop kvs k v) = (map_of kvs)(k \<mapsto> v)"
  by (induction kvs) (auto simp: fun_eq_iff)

lemma loaded_entries_absent: "loaded_entries None = Some []"
  by (simp add: loaded_entries_def getHistory_def empty_history_def)


lemma loaded_entriesD:
  assumes "loaded_entries f = Some xs"
  obtains kvs where "getHistory f = Inr (JObject kvs)" "map_of kvs ''entries'' = Some (JArray xs)"
  using assms
  by (auto simp: loaded_entries_def split: sum.splits json.splits option.splits)

lemma addHistoryEntry_loaded:
  assumes "loaded_entries f = Some xs"
  shows "\<exists>f'. addHistoryEntry e f = Inr f'
            \<and> loaded_entries f' = Some (take MAX_HISTORY_ENTRIES (entry_json e # xs))"
proof -
  from assms obtain kvs where h: "getHistory f = Inr (JObject kvs)"
    and ents: "map_of kvs ''entries'' = Some (JArray xs)"
    by (rule loaded_entriesD)
  have "addHistoryEntry e f = Inr (Some (Wellformed (JObject (put_prop kvs ''entries''
          (JArray (take MAX_HISTORY_ENTRIES (entry_json e # xs)))))))"
    by (simp add: addHistoryEntry_def bnd_def h ents array_methods_def Let_def)
  moreover have "loaded_entries (Some (Wellformed (JObject (put_prop kvs ''entries''
          (JArray (take MAX_HISTORY_ENTRIES (entry_json e # xs)))))))
        = Some (take MAX_HISTORY_ENTRIES (entry_json e # xs))"
    by (simp add: loaded_entries_def getHistory_def JSON_parse_def map_of_put_prop)
  ultimately show ?thesis by simp
qed

lemma take_append_take: "take n (ys @ take n xs) = take n (ys @ xs)"
  by (simp add: min_def)

lemma append_all_bounded:
  assumes "loaded_entries f = Some xs" and "length xs \<le> MAX_HISTORY_ENTRIES"
  shows "\<exists>f'. append_all es f = Inr f'
            \<and> loaded_entries f' = Some (take MAX_HISTORY_ENTRIES (map entry_json (rev es) @ xs))"
  using assms
proof (induction es arbitrary: f xs)
  case Nil
  then show ?case by simp
next
  case (Cons e es)
  from addHistoryEntry_loaded [OF Cons.prems(1), of e] obtain f1
    where step: "addHistoryEntry e f = Inr f1"
      and l1: "loaded_entries f1 = Some (take MAX_HISTORY_ENTRIES (entry_json e # xs))"
    by blast
  have "length (take MAX_HISTORY_ENTRIES (entry_json e # xs)) \<le> MAX_HISTORY_ENTRIES"
    by simp
  from Cons.IH [OF l1 this] obtain f' where rest: "append_all es f1 = Inr f'"
    and l': "loaded_entries f' = Some (take MAX_HISTORY_ENTRIES
        (map entry_json (rev es) @ take MAX_HISTORY_ENTRIES (entry_json e # xs)))"
    by blast
  have "append_all (e # es) f = Inr f'"
    by (simp add: bnd_def step rest)
  moreover have "loaded_entries f' = Some (take MAX_HISTORY_ENTRIES
        (map entry_json (rev (e # es)) @ xs))"
    by (simp only: l' take_append_take) simp
  ultimately show ?case by blast
qed

lemma append_all_loaded:
  assumes "loaded_entries f = Some xs" and "es \<noteq> []"
  shows "\<exists>f'. append_all es f = Inr f'
            \<and> loaded_entries f' = Some (take MAX_HISTORY_ENTRIES (map entry_json (rev es) @ xs))"
proof -
  from assms(2) obtain e es' where es: "es = e # es'" by (cases es) auto
  from addHistoryEntry_loaded [OF assms(1), of e] obtain f1
    where step: "addHistoryEntry e f = Inr f1"
      and l1: "loaded_entries f1 = Some (take MAX_HISTORY_ENTRIES (entry_json e # xs))"
    by blast
  have "length (take MAX_HISTORY_ENTRIES (entry_json e # xs)) \<le> MAX_HISTORY_ENTRIES"
    by simp
  from append_all_bounded [OF l1 this, of es'] obtain f' where rest: "append_all es' f1 = Inr f'"
    and l': "loaded_entries f' = Some (take MAX_HISTORY_ENTRIES
        (map entry_json (rev es') @ take MAX_HISTORY_ENTRIES (entry_json e # xs)))"
    by blast
  have "append_all es f = Inr f'"
    by (simp add: es bnd_def step rest)
  moreover have "loaded_entries f' = Some (take MAX_HISTORY_ENTRIES
        (map entry_json (rev es) @ xs))"
    by (simp only: l' take_append_take es) simp
  ultimately show ?thesis by blast
qed

lemma getLastChangelogRef_loaded:
  assumes "loaded_entries f = Some (entry_json e # ys)"
  shows "getLastChangelogRef f = Inr (Data (JString (e_toCommitHash e)))"
proof -
  from assms obtain kvs where h: "getHistory f = Inr (JObject kvs)"
    and ents: "map_of kvs ''entries'' = Some (JArray (entry_json e # ys))"
    by (rule loaded_entriesD)
  show ?thesis
    by (simp add: getLastChangelogRef_def bnd_def h ents entry_json_def decimal_zero_iff)
qed

lemma take_rev_nonempty:
  assumes "es \<noteq> []" and "0 < n"
  shows "\<exists>ys. take n (map g (rev es) @ xs) = g (last es) # ys"
proof -
  from assms(1) obtain e es' where "es = es' @ [e]" by (cases es rule: rev_cases) auto
  moreover from assms(2) obtain m where "n = Suc m" by (cases n) auto
  ultimately show ?thesis by simp
qed

text \<open>
  C1. Start from any history file whose loaded history has an array of entries (the
  file may be absent or unparseable, and the array may be of any length). Any non-empty
  run of appends then succeeds, and afterwards the loaded entries are the appended ones,
  newest first, in front of the earlier ones, cut to the first 50; they are at most 50;
  the first is the entry appended last; and \<^verbatim>\<open>getLastChangelogRef\<close> returns the
  \<^verbatim>\<open>toCommitHash\<close> of the entry appended last.
\<close>

theorem append_history_newest_first_capped:
  assumes "loaded_entries file = Some xs" and "es \<noteq> []"
  shows "\<exists>file' ys.
           append_all es file = Inr file'
         \<and> loaded_entries file' = Some (entry_json (last es) # ys)
         \<and> entry_json (last es) # ys = take 50 (map entry_json (rev es) @ xs)
         \<and> length (entry_json (last es) # ys) \<le> 50
         \<and> getLastChangelogRef file' = Inr (Data (JString (e_toCommitHash (last es))))"
proof -
  from append_all_loaded [OF assms] obtain f' where run: "append_all es file = Inr f'"
    and l': "loaded_entries f' = Some (take MAX_HISTORY_ENTRIES (map entry_json (rev es) @ xs))"
    by blast
  from take_rev_nonempty [OF assms(2), of MAX_HISTORY_ENTRIES entry_json xs]
  obtain ys where front:
    "take MAX_HISTORY_ENTRIES (map entry_json (rev es) @ xs) = entry_json (last es) # ys"
    by (auto simp: MAX_HISTORY_ENTRIES_def)
  have len: "length (entry_json (last es) # ys) \<le> 50"
    unfolding front [symmetric] by (simp add: MAX_HISTORY_ENTRIES_def)
  have cut: "entry_json (last es) # ys = take 50 (map entry_json (rev es) @ xs)"
    using front by (simp add: MAX_HISTORY_ENTRIES_def)
  have l'': "loaded_entries f' = Some (entry_json (last es) # ys)"
    by (simp only: l' front)
  have "getLastChangelogRef f' = Inr (Data (JString (e_toCommitHash (last es))))"
    by (rule getLastChangelogRef_loaded [OF l''])
  with run l'' len cut show ?thesis by blast
qed

theorem append_history_newest_first_capped_witness:
  "\<exists>file' ys.
      append_all [sample_entry ''aaa'', sample_entry ''bbb''] None = Inr file'
    \<and> loaded_entries file' = Some (entry_json (sample_entry ''bbb'') # ys)
    \<and> entry_json (sample_entry ''bbb'') # ys
        = [entry_json (sample_entry ''bbb''), entry_json (sample_entry ''aaa'')]
    \<and> getLastChangelogRef file' = Inr (Data (JString ''bbb''))"
  using append_history_newest_first_capped
    [of None "[]" "[sample_entry ''aaa'', sample_entry ''bbb'']"]
  by (simp add: loaded_entries_absent sample_entry_def)





subsection \<open>Configuration\<close>

lemma map_of_spread: "map_of (spread base v) = map_of base ++ map_of (own_props v)"
proof -
  have "map_of (foldr (\<lambda>(k, x) acc. put_prop acc k x) ps base) = map_of base ++ map_of ps" for ps
    by (induction ps) (auto simp: map_of_put_prop fun_eq_iff map_add_def)
  then show ?thesis by (simp add: spread_def)
qed

text \<open>
  C10. For every configuration document that parses, \<^verbatim>\<open>getConfig\<close> returns an object
  whose properties are the defaults overridden, at the top level only, by the own
  properties of the document, and leaves the file as it is. So when the document has a
  \<^verbatim>\<open>models\<close> object of its own that lacks an entry k (commit or changelog), reading
  \<^verbatim>\<open>config.models.k\<close> gives \<^verbatim>\<open>undefined\<close>, although the defaults have that entry.
\<close>

theorem getConfig_shallow_merge:
  assumes "configFile s = Some (Wellformed doc)"
  shows "\<exists>props. getConfig s = (Inr (JObject props), s)
           \<and> map_of props = map_of DEFAULT_CONFIG_props ++ map_of (own_props doc)
           \<and> (\<forall>mkvs k. map_of (own_props doc) ''models'' = Some (JObject mkvs) \<and> map_of mkvs k = None
                \<longrightarrow> bnd (get_prop (Data (JObject props)) ''models'') (\<lambda>m. get_prop m k) = Inr Undefined)
           \<and> bnd (get_prop (Data DEFAULT_CONFIG) ''models'') (\<lambda>m. get_prop m ''commit'')
               = Inr (Data default_model)
           \<and> bnd (get_prop (Data DEFAULT_CONFIG) ''models'') (\<lambda>m. get_prop m ''changelog'')
               = Inr (Data default_model)"
proof -
  let ?props = "spread DEFAULT_CONFIG_props doc"
  have 1: "getConfig s = (Inr (JObject ?props), s)"
    by (simp add: getConfig_def assms JSON_parse_def ret_def)
  have 2: "map_of ?props = map_of DEFAULT_CONFIG_props ++ map_of (own_props doc)"
    by (rule map_of_spread)
  have 3: "bnd (get_prop (Data (JObject ?props)) ''models'') (\<lambda>m. get_prop m k) = Inr Undefined"
    if "map_of (own_props doc) ''models'' = Some (JObject mkvs) \<and> map_of mkvs k = None" for mkvs k
    using that by (simp add: 2 bnd_def map_add_def)
  have 4: "bnd (get_prop (Data DEFAULT_CONFIG) ''models'') (\<lambda>m. get_prop m ''commit'')
      = Inr (Data default_model)"
    "bnd (get_prop (Data DEFAULT_CONFIG) ''models'') (\<lambda>m. get_prop m ''changelog'')
      = Inr (Data default_model)"
    by (simp_all add: DEFAULT_CONFIG_def DEFAULT_CONFIG_props_def bnd_def)
  from 1 2 3 4 show ?thesis by blast
qed

theorem getConfig_shallow_merge_witness:
  "\<exists>props. getConfig \<lparr>out = [], configFile = Some (Wellformed
        (JObject [(''models'', JObject [(''commit'', model_json (''anthropic'', ''claude''))])]))\<rparr>
      = (Inr (JObject props), \<lparr>out = [], configFile = Some (Wellformed
        (JObject [(''models'', JObject [(''commit'', model_json (''anthropic'', ''claude''))])]))\<rparr>)
    \<and> bnd (get_prop (Data (JObject props)) ''models'') (\<lambda>m. get_prop m ''changelog'') = Inr Undefined
    \<and> bnd (get_prop (Data (JObject props)) ''models'') (\<lambda>m. get_prop m ''commit'')
        = Inr (Data (model_json (''anthropic'', ''claude'')))"
proof -
  let ?doc = "JObject [(''models'', JObject [(''commit'', model_json (''anthropic'', ''claude''))])]"
  let ?s = "\<lparr>out = [], configFile = Some (Wellformed ?doc)\<rparr>"
  from getConfig_shallow_merge [of ?s ?doc]
  obtain props where 1: "getConfig ?s = (Inr (JObject props), ?s)"
    and 2: "map_of props = map_of DEFAULT_CONFIG_props ++ map_of (own_props ?doc)"
    and 3: "\<forall>mkvs k. map_of (own_props ?doc) ''models'' = Some (JObject mkvs) \<and> map_of mkvs k = None
              \<longrightarrow> bnd (get_prop (Data (JObject props)) ''models'') (\<lambda>m. get_prop m k) = Inr Undefined"
    by auto
  from 3 have "bnd (get_prop (Data (JObject props)) ''models'') (\<lambda>m. get_prop m ''changelog'')
      = Inr Undefined"
    by simp
  moreover have "bnd (get_prop (Data (JObject props)) ''models'') (\<lambda>m. get_prop m ''commit'')
      = Inr (Data (model_json (''anthropic'', ''claude'')))"
    by (simp add: 2 bnd_def)
  ultimately show ?thesis using 1 by blast
qed

subsection \<open>The config command\<close>

lemma length_split_on: "length (split_on c s) = Suc (length (filter (\<lambda>x. x = c) s))"
  by (induction s) (auto split: list.splits)

lemma parseModelString_None_iff: "(parseModelString m = None) = malformed m"
proof -
  have "(length (split_on CHR ''/'' m) < 2) = (filter (\<lambda>x. x = CHR ''/'') m = [])"
    by (simp add: length_split_on)
  also have "\<dots> = malformed m"
    by (auto simp: malformed_def filter_empty_conv)
  finally have len: "(length (split_on CHR ''/'' m) < 2) = malformed m" .
  have "split_on CHR ''/'' m \<noteq> []"
    using length_split_on [of "CHR ''/''" m] by auto
  then show ?thesis
    using len by (auto simp: parseModelString_def Let_def split: list.splits)
qed

text \<open>
  C9, as stated, fails: \<^verbatim>\<open>config --commit-model gpt-4o\<close> (no slash) prints the error and
  returns; the command completes and the exit code is 0.
\<close>

theorem config_malformed_exit_counterexample:
  "malformed ''gpt-4o''
   \<and> fst (main (configCommand (Inr [])
         \<lparr>commitModel = Some ''gpt-4o'', changelogModel = None, listModels = False\<rparr>)
       \<lparr>out = [], configFile = None\<rparr>) = Some 0"
  by (simp add: malformed_def main_def configCommand_def given_def updateModels_def set_model_def
      parseModelString_def getConfig_def saveConfig_def seq_def ret_def say_def)

text \<open>
  C9, amended. In a config invocation without \<^verbatim>\<open>--list-models\<close> whose first given model
  string (the commit model, or the changelog model when no commit model is given) is
  malformed, nothing is thrown: the command prints the error "Invalid model format" and
  a hint and finishes, the process ends with exit code 0, and no model selection is
  saved (the configuration file stays as it was; an absent one has been created with the
  defaults by \<^verbatim>\<open>getConfig\<close>).
\<close>

theorem config_malformed_completes:
  assumes "\<not> listModels options"
      and "first_model options = Some m" and "m \<noteq> []" and "malformed m"
  shows "main (configCommand listProviders options) s =
           (Some 0,
            s\<lparr>out := out s @
                 [(Intro, '' quill ''),
                  (Err, ''Invalid model format: '' @ dq @ m @ dq),
                  (Info, ''Expected format: provider/model (e.g., anthropic/claude-sonnet-4-5)''),
                  (Outro, ''Done!'')],
              configFile := (case configFile s of
                               None \<Rightarrow> Some (Wellformed DEFAULT_CONFIG)
                             | Some content \<Rightarrow> Some content)\<rparr>)"
proof -
  have none: "parseModelString m = None"
    using assms(4) by (simp add: parseModelString_None_iff)
  have giv: "given (commitModel options) \<or> given (changelogModel options)"
    using assms(2,3) by (auto simp: first_model_def given_def split: if_splits)
  have upd: "updateModels options s =
      (Inr (), s\<lparr>out := out s @
                 [(Err, ''Invalid model format: '' @ dq @ m @ dq),
                  (Info, ''Expected format: provider/model (e.g., anthropic/claude-sonnet-4-5)'')],
              configFile := (case configFile s of
                               None \<Rightarrow> Some (Wellformed DEFAULT_CONFIG)
                             | Some content \<Rightarrow> Some content)\<rparr>)" for s :: cfg_state
    using assms(2,3) none
    by (cases "configFile s"; cases "commitModel options"; cases "changelogModel options")
      (auto simp: first_model_def given_def updateModels_def set_model_def getConfig_def
        saveConfig_def seq_def ret_def say_def JSON_parse_def
        split: if_splits sum.splits json_text.splits)
  show ?thesis
    using assms(1) giv
    by (simp add: main_def configCommand_def seq_def say_def upd)
qed

theorem config_malformed_completes_witness:
  "main (configCommand (Inr [])
       \<lparr>commitModel = None, changelogModel = Some ''sonnet'', listModels = False\<rparr>)
     \<lparr>out = [], configFile = Some (Wellformed DEFAULT_CONFIG)\<rparr>
   = (Some 0,
      \<lparr>out = [(Intro, '' quill ''),
               (Err, ''Invalid model format: '' @ dq @ ''sonnet'' @ dq),
               (Info, ''Expected format: provider/model (e.g., anthropic/claude-sonnet-4-5)''),
               (Outro, ''Done!'')],
        configFile = Some (Wellformed DEFAULT_CONFIG)\<rparr>)"
  using config_malformed_completes
    [of "\<lparr>commitModel = None, changelogModel = Some ''sonnet'', listModels = False\<rparr>"
        "''sonnet''" "Inr []" "\<lparr>out = [], configFile = Some (Wellformed DEFAULT_CONFIG)\<rparr>"]
  by (simp add: first_model_def given_def malformed_def)

subsection \<open>The release command: the version\<close>


lemmas prog_eval = seq_def ret_def halt_def lift_def say_def look_def ask_def




subsection \<open>The release command: the starting reference\<close>







subsection \<open>The changelog command on an empty range\<close>

lemma wn_ret: "writes_nothing (ret x)"
  by (simp add: writes_nothing_def ret_def)

lemma wn_halt: "writes_nothing (halt e)"
  by (simp add: writes_nothing_def halt_def)

lemma wn_say: "writes_nothing (say l m)"
  by (simp add: writes_nothing_def say_def)

lemma lift_state: "snd (lift r s) = s"
  by (cases r) (simp_all add: lift_def ret_def halt_def)

lemma wn_lift: "writes_nothing (lift r)"
  by (simp add: writes_nothing_def lift_state)

lemma wn_ask: "writes_nothing (ask E q)"
  by (simp add: writes_nothing_def ask_def lift_state)

lemma wn_look: "writes_nothing (look E q)"
  by (simp add: writes_nothing_def look_def ret_def)

lemma wn_last_ref: "writes_nothing (\<lambda>s. lift (getLastChangelogRef (historyFile s)) s)"
  by (simp add: writes_nothing_def lift_state)

lemma wn_seq:
  assumes "writes_nothing m" and "\<And>x. writes_nothing (f x)"
  shows "writes_nothing (seq m f)"
  unfolding writes_nothing_def
proof
  fix s
  obtain r s1 where m: "m s = (r, s1)" by (cases "m s")
  from assms(1) have 1: "changelogFile s1 = changelogFile s \<and> historyFile s1 = historyFile s
      \<and> gitOps s1 = gitOps s"
    using m by (auto simp: writes_nothing_def dest: spec [of _ s])
  show "changelogFile (snd (seq m f s)) = changelogFile s
      \<and> historyFile (snd (seq m f s)) = historyFile s
      \<and> gitOps (snd (seq m f s)) = gitOps s"
  proof (cases r)
    case (Inl e)
    with m 1 show ?thesis by (simp add: seq_def)
  next
    case (Inr v)
    from assms(2) [of v] have "changelogFile (snd (f v s1)) = changelogFile s1
        \<and> historyFile (snd (f v s1)) = historyFile s1 \<and> gitOps (snd (f v s1)) = gitOps s1"
      by (simp add: writes_nothing_def)
    with Inr m 1 show ?thesis by (simp add: seq_def)
  qed
qed

lemma wn_select: "writes_nothing (select msg values)"
  unfolding select_def
  by (rule wn_seq [OF wn_say])
    (auto simp: writes_nothing_def cancelled_def seq_def say_def halt_def
      split: list.splits option.splits)

lemma wn_selectFromRef: "writes_nothing (selectFromRef E)"
  unfolding selectFromRef_def Let_def
  by (intro wn_seq wn_last_ref wn_ask)
    (auto intro!: wn_seq wn_ret wn_lift wn_look wn_select split: list.splits)

lemma wn_changelogRange: "writes_nothing (changelogRange E options)"
  unfolding changelogRange_def Let_def
  by (auto intro!: wn_seq wn_ret wn_say wn_selectFromRef split: option.splits)

text \<open>
  C8. Whenever the changelog command has settled its two references and the range
  between them holds no commit, the command ends there, returning normally with the
  warning "No commits found in the specified range." as its last line, and
  \<^verbatim>\<open>CHANGELOG.md\<close>, the history file and the repository are as they were when the
  command started. Likewise \<^verbatim>\<open>generateAndSaveChangelog\<close>, which the release workflow
  calls, returns the empty text on an empty range and changes nothing.
\<close>

theorem changelog_empty_range_writes_nothing:
  assumes "isGitRepo (git E (gitOps s))"
      and "changelogRange E options (s\<lparr>out := out s @ [(Intro, '' quill '')]\<rparr>)
             = (Inr (Some (fromRef, toRef)), s1)"
      and "getCommitsBetween (git E (gitOps s1)) fromRef toRef = Inr []"
  shows "changelogCommand E options s =
           (Inr (), s1\<lparr>out := out s1 @
              [(Info, ''Generating changelog from '' @ fromRef @ '' to '' @ toRef),
               (Warn, ''No commits found in the specified range.'')]\<rparr>)
       \<and> changelogFile s1 = changelogFile s
       \<and> historyFile s1 = historyFile s
       \<and> gitOps s1 = gitOps s
       \<and> (getCommitsBetween (git E (gitOps s_rel)) from_rel to_rel = Inr [] \<longrightarrow>
            generateAndSaveChangelog E from_rel to_rel version s_rel = (Inr [], s_rel))"
proof (intro conjI impI)
  let ?s0 = "s\<lparr>out := out s @ [(Intro, '' quill '')]\<rparr>"
  have frame: "changelogFile s1 = changelogFile ?s0 \<and> historyFile s1 = historyFile ?s0
      \<and> gitOps s1 = gitOps ?s0"
    using wn_changelogRange [of E options] assms(2)
    by (auto simp: writes_nothing_def dest: spec [of _ ?s0])
  then show "changelogFile s1 = changelogFile s" "historyFile s1 = historyFile s"
    and ops: "gitOps s1 = gitOps s"
    by simp_all
  have body: "changelogBody E fromRef toRef s1 =
      (Inr (), s1\<lparr>out := out s1 @
              [(Info, ''Generating changelog from '' @ fromRef @ '' to '' @ toRef),
               (Warn, ''No commits found in the specified range.'')]\<rparr>)"
    using assms(3) by (simp add: changelogBody_def prog_eval)
  have intro: "say Intro '' quill '' s = (Inr (), ?s0)"
    by (simp add: say_def)
  have repo: "ensureGitRepo E ?s0 = (Inr (), ?s0)"
    using assms(1) by (simp add: ensureGitRepo_def prog_eval)
  show "changelogCommand E options s =
           (Inr (), s1\<lparr>out := out s1 @
              [(Info, ''Generating changelog from '' @ fromRef @ '' to '' @ toRef),
               (Warn, ''No commits found in the specified range.'')]\<rparr>)"
    by (simp add: changelogCommand_def seq_def intro repo assms(2) body)
next
  assume "getCommitsBetween (git E (gitOps s_rel)) from_rel to_rel = Inr []"
  then show "generateAndSaveChangelog E from_rel to_rel version s_rel = (Inr [], s_rel)"
    by (simp add: generateAndSaveChangelog_def prog_eval)
qed

theorem changelog_empty_range_writes_nothing_witness:
  "changelogCommand (sample_env empty_repo) \<lparr>opt_from = Some ''abc123'', opt_to = Some ''HEAD''\<rparr>
     (start_world\<lparr>changelogFile := Some ''# Changelog''\<rparr>)
   = (Inr (), start_world\<lparr>changelogFile := Some ''# Changelog'',
        out := [(Intro, '' quill ''),
                (Info, ''Generating changelog from abc123 to HEAD''),
                (Warn, ''No commits found in the specified range.'')]\<rparr>)
   \<and> generateAndSaveChangelog (sample_env empty_repo) ''v1.0.0'' ''HEAD'' (Data (JString ''1.1.0''))
       (start_world\<lparr>changelogFile := Some ''# Changelog''\<rparr>)
     = (Inr [], start_world\<lparr>changelogFile := Some ''# Changelog''\<rparr>)"
proof -
  let ?E = "sample_env empty_repo"
  let ?s = "start_world\<lparr>changelogFile := Some ''# Changelog''\<rparr>"
  let ?s1 = "?s\<lparr>out := [(Intro, '' quill '')]\<rparr>"
  have 1: "isGitRepo (git ?E (gitOps ?s))"
    by (simp add: sample_env_def empty_repo_def)
  have 2: "changelogRange ?E \<lparr>opt_from = Some ''abc123'', opt_to = Some ''HEAD''\<rparr>
      (?s\<lparr>out := out ?s @ [(Intro, '' quill '')]\<rparr>) = (Inr (Some (''abc123'', ''HEAD'')), ?s1)"
    by (simp add: changelogRange_def nonempty_def ret_def start_world_def)
  have 3: "getCommitsBetween (git ?E (gitOps ?s1)) ''abc123'' ''HEAD'' = Inr []"
    by (simp add: sample_env_def empty_repo_def)
  have 4: "getCommitsBetween (git ?E (gitOps ?s)) ''v1.0.0'' ''HEAD'' = Inr []"
    by (simp add: sample_env_def empty_repo_def)
  from changelog_empty_range_writes_nothing [OF 1 2 3, where s_rel = ?s and from_rel = "''v1.0.0''"
      and to_rel = "''HEAD''" and version = "Data (JString ''1.1.0'')"] 4
  show ?thesis by (simp add: start_world_def)
qed

end
